theory Spec2Isabelle
  imports Main
begin

section \<open>Tokens (include/common/token.h)\<close>

text \<open>
  The scoped enumeration \<open>TokenType\<close>. Every enumerator \<open>TokenType::X\<close> is the
  constructor \<open>T_X\<close> (several of the bare names are taken in HOL, and \<open>AND\<close>, \<open>OR\<close>,
  \<open>NOT\<close>, \<open>VOID\<close> and \<open>LABEL\<close> occur in more than one enumeration of the program).
\<close>

datatype TokenType =
    T_INT | T_FLOAT | T_IF | T_ELSE | T_WHILE | T_RETURN | T_VOID
  | T_IDENTIFIER | T_INTEGER_LITERAL | T_FLOAT_LITERAL | T_STRING_LITERAL
  | T_PLUS | T_MINUS | T_MULTIPLY | T_DIVIDE | T_MODULO | T_ASSIGN
  | T_EQUAL | T_NOT_EQUAL | T_LESS | T_LESS_EQUAL | T_GREATER | T_GREATER_EQUAL
  | T_AND | T_OR | T_NOT
  | T_SEMICOLON | T_COMMA | T_LEFT_PAREN | T_RIGHT_PAREN | T_LEFT_BRACE | T_RIGHT_BRACE
  | T_LEFT_BRACKET | T_RIGHT_BRACKET
  | T_END_OF_FILE | T_UNKNOWN

text \<open>\<open>struct SourceLocation { int line; int column; }\<close>\<close>

datatype SourceLocation = SourceLocation (loc_line: int) (loc_column: int)

text \<open>\<open>class Token\<close>: kind, lexeme, location.\<close>

datatype Token = Token (getType: TokenType) (getLexeme: string) (getLocation: SourceLocation)

section \<open>The lexer (lexer/lexer.h, lexer.cpp)\<close>

text \<open>
  The lexer object: the source text, the two positions \<open>start_\<close> and \<open>current_\<close>
  (\<open>size_t\<close>), \<open>line_\<close> and \<open>column_\<close> (\<open>int\<close>, starting at 1), the scanned tokens, and the
  lines written to \<open>std::cerr\<close>. \<open>line_\<close> and \<open>column_\<close> only count characters of the
  source up and are mathematical integers here.
\<close>

record Lexer =
  source :: string
  start :: nat
  current :: nat
  line :: int
  column :: int
  tokens :: "Token list"
  lexerCerr :: "string list"

definition new_Lexer :: "string \<Rightarrow> Lexer" where
  "new_Lexer src =
     \<lparr>source = src, start = 0, current = 0, line = 1, column = 1, tokens = [],
      lexerCerr = []\<rparr>"

text \<open>
  A \<open>size_t\<close> difference passed where \<open>SourceLocation\<close> takes an \<open>int\<close>: the value is reduced
  to the signed 32-bit range.
\<close>

definition to_int32 :: "int \<Rightarrow> int" where
  "to_int32 x = (x + 2147483648) mod 4294967296 - 2147483648"

text \<open>The character classes of \<open><cctype>\<close> in the C locale.\<close>

definition isdigit :: "char \<Rightarrow> bool" where
  "isdigit c \<longleftrightarrow> c \<in> set ''0123456789''"

definition isalpha :: "char \<Rightarrow> bool" where
  "isalpha c \<longleftrightarrow>
     c \<in> set ''abcdefghijklmnopqrstuvwxyzABCDEFGHIJKLMNOPQRSTUVWXYZ''"

definition isalnum :: "char \<Rightarrow> bool" where
  "isalnum c \<longleftrightarrow> isalpha c \<or> isdigit c"

text \<open>The static keyword table.\<close>

definition keywordTable :: "string \<Rightarrow> TokenType option" where
  "keywordTable =
     [''int'' \<mapsto> T_INT, ''float'' \<mapsto> T_FLOAT, ''if'' \<mapsto> T_IF, ''else'' \<mapsto> T_ELSE,
      ''while'' \<mapsto> T_WHILE, ''return'' \<mapsto> T_RETURN, ''void'' \<mapsto> T_VOID]"

definition isAtEnd :: "Lexer \<Rightarrow> bool" where
  "isAtEnd lx \<longleftrightarrow> current lx \<ge> length (source lx)"

text \<open>
  \<open>char peek(size_t offset = 0)\<close>. The source writes \<open>peek()\<close> for \<open>peek(0)\<close>; the
  token-returning \<open>peek()\<close> of the public interface is not used by the scanner.
\<close>

definition peek :: "nat \<Rightarrow> Lexer \<Rightarrow> char" where
  "peek offset lx =
     (if current lx + offset \<ge> length (source lx) then CHR 0x00
      else source lx ! (current lx + offset))"

text \<open>
  \<open>advance\<close>: \<open>column_++; return source_[current_++]\<close>. Reading a \<open>std::string\<close> at its
  length gives the null character.
\<close>

definition advance :: "Lexer \<Rightarrow> char \<times> Lexer" where
  "advance lx =
     (if current lx < length (source lx) then source lx ! current lx else CHR 0x00,
      lx\<lparr>column := column lx + 1, current := current lx + 1\<rparr>)"

definition match :: "char \<Rightarrow> Lexer \<Rightarrow> bool \<times> Lexer" where
  "match expected lx =
     (if isAtEnd lx \<or> source lx ! current lx \<noteq> expected then (False, lx)
      else (True, lx\<lparr>current := current lx + 1, column := column lx + 1\<rparr>))"

definition substr :: "string \<Rightarrow> nat \<Rightarrow> nat \<Rightarrow> string" where
  "substr s pos n = take n (drop pos s)"

definition lexer_error :: "string \<Rightarrow> Lexer \<Rightarrow> Lexer" where
  "lexer_error message lx = lx\<lparr>lexerCerr := lexerCerr lx @ [message]\<rparr>"

text \<open>The loop of a \<open>//\<close> comment: \<open>while (peek() != '\n' && !isAtEnd()) advance();\<close>\<close>

function skipLineComment :: "Lexer \<Rightarrow> Lexer" where
  "skipLineComment lx =
     (if peek 0 lx \<noteq> CHR 0x0A \<and> \<not> isAtEnd lx then skipLineComment (snd (advance lx))
      else lx)"
  by pat_completeness auto
termination
  by (relation "measure (\<lambda>lx. length (source lx) - current lx)")
     (auto simp: advance_def isAtEnd_def)

declare skipLineComment.simps [simp del]

text \<open>The loop inside a \<open>/* */\<close> comment, after its opening was consumed.\<close>

function skipBlockComment :: "Lexer \<Rightarrow> Lexer" where
  "skipBlockComment lx =
     (if \<not> isAtEnd lx \<and> \<not> (peek 0 lx = CHR ''*'' \<and> peek 1 lx = CHR ''/'')
      then skipBlockComment
             (snd (advance (if peek 0 lx = CHR 0x0A then lx\<lparr>line := line lx + 1, column := 1\<rparr>
                            else lx)))
      else lx)"
  by pat_completeness auto
termination
  by (relation "measure (\<lambda>lx. length (source lx) - current lx)")
     (auto simp: advance_def isAtEnd_def)

declare skipBlockComment.simps [simp del]

lemma skipLineComment_progress:
  "source (skipLineComment lx) = source lx \<and> current lx \<le> current (skipLineComment lx)"
proof (induction lx rule: skipLineComment.induct)
  case (1 lx)
  show ?case
  proof (cases "peek 0 lx \<noteq> CHR 0x0A \<and> \<not> isAtEnd lx")
    case True
    with 1 show ?thesis by (subst (1 2) skipLineComment.simps) (auto simp: advance_def)
  next
    case False
    then show ?thesis by (subst (1 2) skipLineComment.simps) auto
  qed
qed

lemma skipLineComment_strict:
  "peek 0 lx \<noteq> CHR 0x0A \<Longrightarrow> \<not> isAtEnd lx \<Longrightarrow> current lx < current (skipLineComment lx)"
  using skipLineComment_progress[of "snd (advance lx)"]
  by (subst skipLineComment.simps) (auto simp: advance_def)

lemma skipBlockComment_progress:
  "source (skipBlockComment lx) = source lx \<and> current lx \<le> current (skipBlockComment lx)"
proof (induction lx rule: skipBlockComment.induct)
  case (1 lx)
  show ?case
  proof (cases "\<not> isAtEnd lx \<and> \<not> (peek 0 lx = CHR ''*'' \<and> peek 1 lx = CHR ''/'')")
    case True
    with 1 show ?thesis
      by (subst (1 2) skipBlockComment.simps) (auto simp: advance_def)
  next
    case False
    then show ?thesis by (subst (1 2) skipBlockComment.simps) auto
  qed
qed

text \<open>
  \<open>skipWhitespace\<close>. In the block-comment case the opening is consumed, the comment loop
  runs, and the closing is consumed unless the source ended.
\<close>

definition skipBlock :: "Lexer \<Rightarrow> Lexer" where
  "skipBlock lx =
     (let lx1 = skipBlockComment (snd (advance (snd (advance lx))))
      in if \<not> isAtEnd lx1 then snd (advance (snd (advance lx1))) else lx1)"

lemma skipBlock_progress:
  "source (skipBlock lx) = source lx \<and> current lx < current (skipBlock lx)"
  using skipBlockComment_progress[of "snd (advance (snd (advance lx)))"]
  by (auto simp: skipBlock_def Let_def advance_def)

function skipWhitespace :: "Lexer \<Rightarrow> Lexer" where
  "skipWhitespace lx =
     (if isAtEnd lx then lx
      else if peek 0 lx = CHR '' '' \<or> peek 0 lx = CHR 0x09 \<or> peek 0 lx = CHR 0x0D
        then skipWhitespace (snd (advance lx))
      else if peek 0 lx = CHR 0x0A
        then skipWhitespace (snd (advance (lx\<lparr>line := line lx + 1, column := 1\<rparr>)))
      else if peek 0 lx = CHR ''/''
        then (if peek 1 lx = CHR ''/'' then skipWhitespace (skipLineComment lx)
              else if peek 1 lx = CHR ''*'' then skipWhitespace (skipBlock lx)
              else lx)
      else lx)"
  by pat_completeness auto
termination
proof (relation "measure (\<lambda>lx. length (source lx) - current lx)")
  fix lx :: Lexer
  assume "\<not> isAtEnd lx" and "peek 0 lx = CHR ''/''"
  then have "current lx < current (skipLineComment lx)"
    by (intro skipLineComment_strict) auto
  with skipLineComment_progress[of lx] \<open>\<not> isAtEnd lx\<close>
  show "(skipLineComment lx, lx) \<in> measure (\<lambda>lx. length (source lx) - current lx)"
    by (auto simp: isAtEnd_def)
next
  fix lx :: Lexer
  assume "\<not> isAtEnd lx"
  with skipBlock_progress[of lx]
  show "(skipBlock lx, lx) \<in> measure (\<lambda>lx. length (source lx) - current lx)"
    by (auto simp: isAtEnd_def)
qed (auto simp: advance_def isAtEnd_def)

declare skipWhitespace.simps [simp del]

lemma skipWhitespace_progress:
  "source (skipWhitespace lx) = source lx \<and> current lx \<le> current (skipWhitespace lx)"
proof (induction lx rule: skipWhitespace.induct)
  case (1 lx)
  show ?case
    using 1 skipLineComment_progress[of lx] skipBlock_progress[of lx]
    by (subst (1 2) skipWhitespace.simps) (auto simp: advance_def)
qed

text \<open>The loops of \<open>scanIdentifier\<close>, \<open>scanNumber\<close> and \<open>scanString\<close>.\<close>

lemma peek_at_end: "isalnum (peek 0 lx) \<or> peek 0 lx = CHR ''_'' \<or> isdigit (peek 0 lx)
    \<Longrightarrow> current lx < length (source lx)"
  by (auto simp: peek_def isalnum_def isalpha_def isdigit_def split: if_splits)

function identifierLoop :: "Lexer \<Rightarrow> Lexer" where
  "identifierLoop lx =
     (if isalnum (peek 0 lx) \<or> peek 0 lx = CHR ''_'' then identifierLoop (snd (advance lx))
      else lx)"
  by pat_completeness auto
termination
proof (relation "measure (\<lambda>lx. length (source lx) - current lx)")
  fix lx :: Lexer
  assume "isalnum (peek 0 lx) \<or> peek 0 lx = CHR ''_''"
  then have "current lx < length (source lx)" using peek_at_end by blast
  then show "(snd (advance lx), lx) \<in> measure (\<lambda>lx. length (source lx) - current lx)"
    by (auto simp: advance_def)
qed simp

declare identifierLoop.simps [simp del]

function digitLoop :: "Lexer \<Rightarrow> Lexer" where
  "digitLoop lx = (if isdigit (peek 0 lx) then digitLoop (snd (advance lx)) else lx)"
  by pat_completeness auto
termination
proof (relation "measure (\<lambda>lx. length (source lx) - current lx)")
  fix lx :: Lexer
  assume "isdigit (peek 0 lx)"
  then have "current lx < length (source lx)" using peek_at_end by blast
  then show "(snd (advance lx), lx) \<in> measure (\<lambda>lx. length (source lx) - current lx)"
    by (auto simp: advance_def)
qed simp

declare digitLoop.simps [simp del]

function stringLoop :: "Lexer \<Rightarrow> Lexer" where
  "stringLoop lx =
     (if peek 0 lx \<noteq> CHR 0x22 \<and> \<not> isAtEnd lx
      then stringLoop
             (snd (advance (if peek 0 lx = CHR 0x0A then lx\<lparr>line := line lx + 1, column := 1\<rparr>
                            else lx)))
      else lx)"
  by pat_completeness auto
termination
  by (relation "measure (\<lambda>lx. length (source lx) - current lx)")
     (auto simp: advance_def isAtEnd_def)

declare stringLoop.simps [simp del]

definition scanIdentifier :: "Lexer \<Rightarrow> Token \<times> Lexer" where
  "scanIdentifier lx =
     (let lx1 = identifierLoop lx;
          text = substr (source lx1) (start lx1) (current lx1 - start lx1);
          type = (case keywordTable text of Some k \<Rightarrow> k | None \<Rightarrow> T_IDENTIFIER)
      in (Token type text
            (SourceLocation (line lx1) (to_int32 (column lx1 - int (length text)))),
          lx1))"

definition scanNumber :: "Lexer \<Rightarrow> Token \<times> Lexer" where
  "scanNumber lx =
     (let lx1 = digitLoop lx;
          isFloat = (peek 0 lx1 = CHR ''.'' \<and> isdigit (peek 1 lx1));
          lx2 = (if isFloat then digitLoop (snd (advance lx1)) else lx1);
          text = substr (source lx2) (start lx2) (current lx2 - start lx2);
          type = (if isFloat then T_FLOAT_LITERAL else T_INTEGER_LITERAL)
      in (Token type text
            (SourceLocation (line lx2) (to_int32 (column lx2 - int (length text)))),
          lx2))"

definition scanString :: "Lexer \<Rightarrow> Token \<times> Lexer" where
  "scanString lx =
     (let lx1 = stringLoop lx
      in if isAtEnd lx1
         then (let lx2 = lexer_error ''Unterminated string.'' lx1
               in (Token T_UNKNOWN
                     (substr (source lx2) (start lx2) (current lx2 - start lx2))
                     (SourceLocation (line lx2)
                        (to_int32 (column lx2 - int (current lx2 - start lx2)))),
                   lx2))
         else (let lx2 = snd (advance lx1);
                   val = substr (source lx2) (start lx2 + 1) (current lx2 - start lx2 - 2)
               in (Token T_STRING_LITERAL val
                     (SourceLocation (line lx2)
                        (to_int32 (column lx2 - int (length val) - 2))),
                   lx2)))"

text \<open>A token of one or of two characters, located one or two columns back.\<close>

definition token1 :: "TokenType \<Rightarrow> string \<Rightarrow> Lexer \<Rightarrow> Token \<times> Lexer" where
  "token1 type lexeme lx = (Token type lexeme (SourceLocation (line lx) (column lx - 1)), lx)"

definition token2 :: "TokenType \<Rightarrow> string \<Rightarrow> Lexer \<Rightarrow> Token \<times> Lexer" where
  "token2 type lexeme lx = (Token type lexeme (SourceLocation (line lx) (column lx - 2)), lx)"

text \<open>The two-character operators: \<open>if (match(second)) ... else ...\<close>\<close>

definition twoChar ::
  "char \<Rightarrow> TokenType \<Rightarrow> string \<Rightarrow> TokenType \<Rightarrow> string \<Rightarrow> Lexer \<Rightarrow> Token \<times> Lexer" where
  "twoChar second type2 lexeme2 type1 lexeme1 lx =
     (let (m, lx1) = match second lx
      in if m then token2 type2 lexeme2 lx1 else token1 type1 lexeme1 lx1)"

text \<open>
  \<open>scanToken\<close>. After the white space, at the end of the source it returns an
  end-of-file token; otherwise it sets \<open>start_\<close>, reads one character and dispatches.
\<close>

definition scanToken :: "Lexer \<Rightarrow> Token \<times> Lexer" where
  "scanToken lx0 =
     (let lx1 = skipWhitespace lx0
      in if isAtEnd lx1
         then (Token T_END_OF_FILE [] (SourceLocation (line lx1) (column lx1)), lx1)
         else
           (let (c, lx) = advance (lx1\<lparr>start := current lx1\<rparr>)
            in if isalpha c \<or> c = CHR ''_'' then scanIdentifier lx
               else if isdigit c then scanNumber lx
               else if c = CHR 0x22 then scanString lx
               else if c = CHR ''('' then token1 T_LEFT_PAREN ''('' lx
               else if c = CHR '')'' then token1 T_RIGHT_PAREN '')'' lx
               else if c = CHR ''{'' then token1 T_LEFT_BRACE ''{'' lx
               else if c = CHR ''}'' then token1 T_RIGHT_BRACE ''}'' lx
               else if c = CHR ''['' then token1 T_LEFT_BRACKET ''['' lx
               else if c = CHR '']'' then token1 T_RIGHT_BRACKET '']'' lx
               else if c = CHR '','' then token1 T_COMMA '','' lx
               else if c = CHR ''.'' then token1 T_UNKNOWN ''.'' lx
               else if c = CHR '';'' then token1 T_SEMICOLON '';'' lx
               else if c = CHR ''+'' then token1 T_PLUS ''+'' lx
               else if c = CHR ''-'' then token1 T_MINUS ''-'' lx
               else if c = CHR ''*'' then token1 T_MULTIPLY ''*'' lx
               else if c = CHR ''/'' then token1 T_DIVIDE ''/'' lx
               else if c = CHR ''%'' then token1 T_MODULO ''%'' lx
               else if c = CHR ''='' then twoChar CHR ''='' T_EQUAL ''=='' T_ASSIGN ''='' lx
               else if c = CHR ''!'' then twoChar CHR ''='' T_NOT_EQUAL ''!='' T_NOT ''!'' lx
               else if c = CHR ''<'' then twoChar CHR ''='' T_LESS_EQUAL ''<='' T_LESS ''<'' lx
               else if c = CHR ''>''
                 then twoChar CHR ''='' T_GREATER_EQUAL ''>='' T_GREATER ''>'' lx
               else if c = CHR ''&'' then twoChar CHR ''&'' T_AND ''&&'' T_UNKNOWN ''&'' lx
               else if c = CHR ''|'' then twoChar CHR ''|'' T_OR ''||'' T_UNKNOWN ''|'' lx
               else token1 T_UNKNOWN [c] lx))"

lemma identifierLoop_progress:
  "source (identifierLoop lx) = source lx \<and> current lx \<le> current (identifierLoop lx)"
proof (induction lx rule: identifierLoop.induct)
  case (1 lx)
  then show ?case by (subst (1 2) identifierLoop.simps) (auto simp: advance_def)
qed

lemma digitLoop_progress:
  "source (digitLoop lx) = source lx \<and> current lx \<le> current (digitLoop lx)"
proof (induction lx rule: digitLoop.induct)
  case (1 lx)
  then show ?case by (subst (1 2) digitLoop.simps) (auto simp: advance_def)
qed

lemma stringLoop_progress:
  "source (stringLoop lx) = source lx \<and> current lx \<le> current (stringLoop lx)"
proof (induction lx rule: stringLoop.induct)
  case (1 lx)
  then show ?case by (subst (1 2) stringLoop.simps) (auto simp: advance_def)
qed

lemma scanners_progress:
  "source (snd (scanIdentifier lx)) = source lx \<and> current lx \<le> current (snd (scanIdentifier lx))"
  "source (snd (scanNumber lx)) = source lx \<and> current lx \<le> current (snd (scanNumber lx))"
  "source (snd (scanString lx)) = source lx \<and> current lx \<le> current (snd (scanString lx))"
  "source (snd (twoChar c t2 l2 t1 l1 lx)) = source lx
     \<and> current lx \<le> current (snd (twoChar c t2 l2 t1 l1 lx))"
  "source (snd (token1 t l lx)) = source lx \<and> current lx \<le> current (snd (token1 t l lx))"
  using identifierLoop_progress[of lx] digitLoop_progress[of lx]
    digitLoop_progress[of "snd (advance (digitLoop lx))"] stringLoop_progress[of lx]
  by (auto simp: scanIdentifier_def scanNumber_def scanString_def twoChar_def token1_def
      token2_def match_def lexer_error_def advance_def Let_def split_beta)

lemma scanToken_progress:
  assumes "\<not> isAtEnd lx"
  shows "source (snd (scanToken lx)) = source lx \<and> current lx < current (snd (scanToken lx))"
proof -
  let ?w = "skipWhitespace lx"
  let ?a = "snd (advance (?w\<lparr>start := current ?w\<rparr>))"
  have w: "source ?w = source lx" "current lx \<le> current ?w"
    using skipWhitespace_progress[of lx] by auto
  show ?thesis
  proof (cases "isAtEnd ?w")
    case True
    with w assms show ?thesis by (auto simp: scanToken_def isAtEnd_def Let_def)
  next
    case False
    have a: "source ?a = source lx" "current lx < current ?a"
      using w by (auto simp: advance_def)
    have "source (snd (scanToken lx)) = source ?a
            \<and> current ?a \<le> current (snd (scanToken lx))"
      using False scanners_progress[where lx = ?a]
      by (simp add: scanToken_def Let_def split_beta del: One_nat_def)
    with a show ?thesis by auto
  qed
qed

text \<open>
  \<open>scanTokens\<close>: the loop pushes what \<open>scanToken\<close> returns, whatever its kind; after the
  loop one end-of-file token is appended. The result is the token vector (and the lexer
  as it is left).
\<close>

function scanLoop :: "Lexer \<Rightarrow> Lexer" where
  "scanLoop lx =
     (if \<not> isAtEnd lx
      then (let (tok, lx1) = scanToken (lx\<lparr>start := current lx\<rparr>)
            in scanLoop (lx1\<lparr>tokens := tokens lx1 @ [tok]\<rparr>))
      else lx)"
  by pat_completeness auto
termination
proof (relation "measure (\<lambda>lx. length (source lx) - current lx)")
  fix lx :: Lexer and x tok lx1
  assume a: "\<not> isAtEnd lx" and x: "x = scanToken (lx\<lparr>start := current lx\<rparr>)"
    and p: "(tok, lx1) = x"
  have "\<not> isAtEnd (lx\<lparr>start := current lx\<rparr>)" using a by (simp add: isAtEnd_def)
  moreover from x p have "lx1 = snd (scanToken (lx\<lparr>start := current lx\<rparr>))"
    by (metis snd_conv)
  ultimately have "source lx1 = source lx" "current lx < current lx1"
    using scanToken_progress[of "lx\<lparr>start := current lx\<rparr>"] by simp_all
  with a show "(lx1\<lparr>tokens := tokens lx1 @ [tok]\<rparr>, lx)
                 \<in> measure (\<lambda>lx. length (source lx) - current lx)"
    by (auto simp: isAtEnd_def)
qed simp

declare scanLoop.simps [simp del]

definition scanTokens :: "Lexer \<Rightarrow> Token list \<times> Lexer" where
  "scanTokens lx =
     (let lx1 = scanLoop lx;
          lx2 = lx1\<lparr>tokens := tokens lx1
                   @ [Token T_END_OF_FILE [] (SourceLocation (line lx1) (column lx1))]\<rparr>
      in (tokens lx2, lx2))"

definition scan :: "string \<Rightarrow> Token list" where
  "scan src = fst (scanTokens (new_Lexer src))"


section \<open>Abstract syntax (ast/ast.h)\<close>

text \<open>
  The value of a \<open>float\<close> is not interpreted anywhere in the front end: it is produced by
  \<open>std::stof\<close> and carried into an \<open>IRFloatConstant\<close>. Its type is left unspecified.
\<close>

typedecl float32

instantiation float32 :: equal
begin

definition equal_float32 :: "float32 \<Rightarrow> float32 \<Rightarrow> bool" where
  "equal_float32 a b \<longleftrightarrow> a = b"

instance
  by standard (simp add: equal_float32_def)

end

text \<open>
  Expression nodes. Child expressions are owning pointers that the parser never leaves
  null, so they are plain sub-terms.
\<close>

datatype Expression =
    IntegerLiteral int SourceLocation
  | FloatLiteral float32 SourceLocation
  | StringLiteral string SourceLocation
  | VariableExpression string SourceLocation
  | BinaryExpression Expression TokenType Expression SourceLocation
  | UnaryExpression TokenType Expression SourceLocation
  | CallExpression string "Expression list" SourceLocation

text \<open>\<open>struct FunctionParameter { type; name; location }\<close>\<close>

datatype FunctionParameter =
  FunctionParameter (param_type: string) (param_name: string) (param_location: SourceLocation)

text \<open>
  Statement nodes. The pointers that the source tests before use (initializer, else
  branch, return value) are options. The elements of a statement vector are options as
  well: \<open>Parser::declaration\<close> returns \<open>nullptr\<close> after a parse error and the caller pushes
  that pointer into the vector, so \<open>None\<close> is a null element. The body of a function
  declaration is a \<open>BlockStatement\<close>; it is kept as that block's statement vector and
  location.
\<close>

datatype Statement =
    ExpressionStatement Expression
  | VarDeclaration string string "Expression option" SourceLocation
  | BlockStatement "Statement option list" SourceLocation
  | IfStatement Expression Statement "Statement option" SourceLocation
  | WhileStatement Expression Statement SourceLocation
  | ReturnStatement "Expression option" SourceLocation
  | FunctionDeclaration string string "FunctionParameter list"
      "Statement option list" SourceLocation SourceLocation

datatype Program = Program (getStatements: "Statement option list")

section \<open>Intermediate representation (ir/ir.h)\<close>

datatype IRType = TY_VOID | TY_INT32 | TY_FLOAT32 | TY_POINTER | TY_LABEL

datatype IROpcode =
    OP_ALLOCA | OP_LOAD | OP_STORE
  | OP_ADD | OP_SUB | OP_MUL | OP_DIV | OP_MOD | OP_NEG
  | OP_CMP_EQ | OP_CMP_NE | OP_CMP_LT | OP_CMP_LE | OP_CMP_GT | OP_CMP_GE
  | OP_AND | OP_OR | OP_NOT
  | OP_JMP | OP_JMP_IF | OP_CALL | OP_RET
  | OP_INT_TO_FLOAT | OP_FLOAT_TO_INT
  | OP_PHI | OP_LABEL | OP_COMMENT

datatype IRIdentifier = IRIdentifier (id_name: string) (id_type: IRType)

text \<open>
  The IR values. They are immutable once made, so a \<open>shared_ptr\<close> to one is the value
  itself; \<open>IRIdent\<close> is the conversion of an \<open>IRIdentifier\<close> pointer to an \<open>IRValue\<close>
  pointer.
\<close>

datatype IRValue =
    IRIntConstant int
  | IRFloatConstant float32
  | IRIdent IRIdentifier
  | IRLabel string

fun value_type :: "IRValue \<Rightarrow> IRType" where
  "value_type (IRIntConstant _) = TY_INT32"
| "value_type (IRFloatConstant _) = TY_FLOAT32"
| "value_type (IRIdent i) = id_type i"
| "value_type (IRLabel _) = TY_LABEL"

datatype IRInstruction =
  IRInstruction (getOpcode: IROpcode) (getResult: "IRIdentifier option")
    (getOperands: "IRValue list")

datatype IRBasicBlock =
  IRBasicBlock (block_name: string) (getInstructions: "IRInstruction list")

datatype IRFunctionParameter = IRFunctionParameter (irparam_name: string) (irparam_type: IRType)

text \<open>
  Basic blocks are mutable objects reached through shared pointers (from the owning
  function and from the builder's \<open>currentBlock_\<close>), so they live in a store and are
  named by address; a function holds the addresses of its blocks in append order.
\<close>

datatype IRFunction =
  IRFunction (function_name: string) (getReturnType: IRType)
    (getParameters: "IRFunctionParameter list") (getBlocks: "nat list")

section \<open>The IR builder (ir/ir_builder.h, ir_builder.cpp)\<close>

text \<open>
  The builder object together with the module it owns:
  \<^item> \<open>moduleName\<close>, \<open>moduleFunctions\<close>: the \<open>IRModule\<close> behind \<open>module_\<close>;
  \<^item> \<open>blockStore\<close>, \<open>nextBlock\<close>: the store of basic blocks and the next unused address
    (\<open>std::make_shared<IRBasicBlock>\<close> takes it);
  \<^item> \<open>currentFunction\<close>: \<open>currentFunction_\<close>, the index of the function in the module's
    list (each function is added to the module as soon as it is made), \<open>None\<close> for null;
  \<^item> \<open>currentBlock\<close>: \<open>currentBlock_\<close>, a block address, \<open>None\<close> for null;
  \<^item> \<open>symbolTable\<close>, \<open>valueStack\<close> (top first), \<open>labelCounter\<close>, \<open>tempCounter\<close>;
  \<^item> \<open>cerr\<close>: the lines written to \<open>std::cerr\<close>, oldest first.
  The two counters are \<open>int\<close> in the source and only ever incremented from 0; they are
  natural numbers here.
\<close>

record IRBuilder =
  moduleName :: string
  moduleFunctions :: "IRFunction list"
  blockStore :: "nat \<Rightarrow> IRBasicBlock"
  nextBlock :: nat
  currentFunction :: "nat option"
  currentBlock :: "nat option"
  symbolTable :: "string \<Rightarrow> IRIdentifier option"
  valueStack :: "IRValue list"
  labelCounter :: nat
  tempCounter :: nat
  cerr :: "string list"

text \<open>\<open>std::to_string\<close> on a non-negative integer: its decimal digits.\<close>

fun to_string :: "nat \<Rightarrow> string" where
  "to_string n =
     (if n < 10 then [''0123456789'' ! n]
      else to_string (n div 10) @ [''0123456789'' ! (n mod 10)])"

declare to_string.simps [simp del]

definition log_cerr :: "string \<Rightarrow> IRBuilder \<Rightarrow> IRBuilder" where
  "log_cerr msg st = st\<lparr>cerr := cerr st @ [msg]\<rparr>"

text \<open>\<open>IRBuilder::IRBuilder(moduleName)\<close>: a fresh module, everything else default.\<close>

definition new_IRBuilder :: "string \<Rightarrow> IRBuilder" where
  "new_IRBuilder mname =
     \<lparr>moduleName = mname, moduleFunctions = [], blockStore = (\<lambda>_. IRBasicBlock [] []),
      nextBlock = 0, currentFunction = None, currentBlock = None,
      symbolTable = (\<lambda>_. None), valueStack = [], labelCounter = 0, tempCounter = 0,
      cerr = []\<rparr>"

text \<open>
  \<open>createBlock\<close>: a new block object; attached to the current function only when there
  is one. Returns the new block's address.
\<close>

definition createBlock :: "string \<Rightarrow> IRBuilder \<Rightarrow> nat \<times> IRBuilder" where
  "createBlock name st =
     (let a = nextBlock st;
          st1 = st\<lparr>blockStore := (blockStore st)(a := IRBasicBlock name []),
                   nextBlock := Suc a\<rparr>
      in case currentFunction st1 of
           Some f \<Rightarrow>
             (let fn = moduleFunctions st1 ! f
              in (a, st1\<lparr>moduleFunctions := (moduleFunctions st1)
                     [f := IRFunction (function_name fn) (getReturnType fn)
                             (getParameters fn) (getBlocks fn @ [a])]\<rparr>))
         | None \<Rightarrow> (a, st1))"

definition setCurrentBlock :: "nat \<Rightarrow> IRBuilder \<Rightarrow> IRBuilder" where
  "setCurrentBlock a st = st\<lparr>currentBlock := Some a\<rparr>"

text \<open>\<open>addInstruction\<close>: appended to the current block, dropped when there is none.\<close>

definition addInstruction :: "IRInstruction \<Rightarrow> IRBuilder \<Rightarrow> IRBuilder" where
  "addInstruction inst st =
     (case currentBlock st of
        Some b \<Rightarrow>
          st\<lparr>blockStore := (blockStore st)
                (b := IRBasicBlock (block_name (blockStore st b))
                        (getInstructions (blockStore st b) @ [inst]))\<rparr>
      | None \<Rightarrow> st)"

definition createTemp :: "IRType \<Rightarrow> string \<Rightarrow> IRBuilder \<Rightarrow> IRIdentifier \<times> IRBuilder" where
  "createTemp ty prefix st =
     (IRIdentifier (prefix @ to_string (tempCounter st)) ty,
      st\<lparr>tempCounter := Suc (tempCounter st)\<rparr>)"

definition createLabel :: "string \<Rightarrow> IRBuilder \<Rightarrow> string \<times> IRBuilder" where
  "createLabel prefix st =
     (prefix @ ''.'' @ to_string (labelCounter st),
      st\<lparr>labelCounter := Suc (labelCounter st)\<rparr>)"

definition typeFromString :: "string \<Rightarrow> IRBuilder \<Rightarrow> IRType \<times> IRBuilder" where
  "typeFromString cType st =
     (if cType = ''int'' then (TY_INT32, st)
      else if cType = ''float'' then (TY_FLOAT32, st)
      else if cType = ''void'' then (TY_VOID, st)
      else (TY_INT32,
            log_cerr (''Warning: Unknown type '' @ [CHR 0x27] @ cType @ [CHR 0x27]
                        @ '', defaulting to INT32.'') st))"

text \<open>\<open>popValue\<close>: an empty stack is reported and yields the constant 0.\<close>

definition popValue :: "IRBuilder \<Rightarrow> IRValue \<times> IRBuilder" where
  "popValue st =
     (case valueStack st of
        [] \<Rightarrow> (IRIntConstant 0, log_cerr ''Error: Value stack is empty.'' st)
      | v # vs \<Rightarrow> (v, st\<lparr>valueStack := vs\<rparr>))"

definition pushValue :: "IRValue \<Rightarrow> IRBuilder \<Rightarrow> IRBuilder" where
  "pushValue v st = st\<lparr>valueStack := v # valueStack st\<rparr>"

text \<open>The opcode chosen by the \<open>switch\<close> of the binary handler (\<open>ASSIGN\<close> apart).\<close>

fun binaryOpcode :: "TokenType \<Rightarrow> IROpcode option" where
  "binaryOpcode T_PLUS = Some OP_ADD"
| "binaryOpcode T_MINUS = Some OP_SUB"
| "binaryOpcode T_MULTIPLY = Some OP_MUL"
| "binaryOpcode T_DIVIDE = Some OP_DIV"
| "binaryOpcode T_MODULO = Some OP_MOD"
| "binaryOpcode T_EQUAL = Some OP_CMP_EQ"
| "binaryOpcode T_NOT_EQUAL = Some OP_CMP_NE"
| "binaryOpcode T_LESS = Some OP_CMP_LT"
| "binaryOpcode T_LESS_EQUAL = Some OP_CMP_LE"
| "binaryOpcode T_GREATER = Some OP_CMP_GT"
| "binaryOpcode T_GREATER_EQUAL = Some OP_CMP_GE"
| "binaryOpcode T_AND = Some OP_AND"
| "binaryOpcode T_OR = Some OP_OR"
| "binaryOpcode _ = None"

fun unaryOpcode :: "TokenType \<Rightarrow> IROpcode option" where
  "unaryOpcode T_MINUS = Some OP_NEG"
| "unaryOpcode T_NOT = Some OP_NOT"
| "unaryOpcode _ = None"

text \<open>The assignment case of the binary handler, after both pops.\<close>

definition lowerAssign :: "Expression \<Rightarrow> IRValue \<Rightarrow> IRBuilder \<Rightarrow> IRBuilder" where
  "lowerAssign target right st =
     (let invalid = pushValue right (log_cerr ''Error: Invalid assignment target.'' st)
      in case target of
           VariableExpression name _ \<Rightarrow>
             (case symbolTable st name of
                Some var \<Rightarrow>
                  pushValue right
                    (addInstruction (IRInstruction OP_STORE None [right, IRIdent var]) st)
              | None \<Rightarrow> invalid)
         | _ \<Rightarrow> invalid)"

text \<open>
  The expression handlers. The binary handler visits its left operand only and then
  pops twice, exactly as \<open>IRBuilder::visit(BinaryExpression*)\<close> does. \<open>visit_args\<close> is
  the argument loop of the call handler. The callee of a call is read into a local and
  not used.
\<close>

fun visit_expr :: "Expression \<Rightarrow> IRBuilder \<Rightarrow> IRBuilder"
  and visit_args :: "Expression list \<Rightarrow> IRBuilder \<Rightarrow> IRValue list \<times> IRBuilder" where
  "visit_expr (IntegerLiteral v loc) st = pushValue (IRIntConstant v) st"
| "visit_expr (FloatLiteral v loc) st = pushValue (IRFloatConstant v) st"
| "visit_expr (StringLiteral v loc) st =
     pushValue (IRIntConstant 0)
       (log_cerr ''Warning: String literals are not supported in IR.'' st)"
| "visit_expr (VariableExpression name loc) st =
     (case symbolTable st name of
        None \<Rightarrow>
          pushValue (IRIntConstant 0)
            (log_cerr (''Error: Variable '' @ [CHR 0x27] @ name @ [CHR 0x27]
                         @ '' not found.'') st)
      | Some var \<Rightarrow>
          (let (temp, st1) = createTemp (id_type var) ''t'' st;
               st2 = addInstruction (IRInstruction OP_LOAD (Some temp) [IRIdent var]) st1
           in pushValue (IRIdent temp) st2))"
| "visit_expr (BinaryExpression left_e op right_e loc) st =
     (let st1 = visit_expr left_e st;
          (right, st2) = popValue st1;
          (left, st3) = popValue st2
      in if op = T_ASSIGN then lowerAssign left_e right st3
         else case binaryOpcode op of
                None \<Rightarrow>
                  pushValue left (log_cerr ''Error: Unsupported binary operator.'' st3)
              | Some opcode \<Rightarrow>
                  (let (temp, st4) = createTemp (value_type left) ''t'' st3;
                       st5 = addInstruction
                               (IRInstruction opcode (Some temp) [left, right]) st4
                   in pushValue (IRIdent temp) st5))"
| "visit_expr (UnaryExpression op operand_e loc) st =
     (let st1 = visit_expr operand_e st;
          (operand, st2) = popValue st1
      in case unaryOpcode op of
           None \<Rightarrow>
             pushValue operand (log_cerr ''Error: Unsupported unary operator.'' st2)
         | Some opcode \<Rightarrow>
             (let (temp, st3) = createTemp (value_type operand) ''t'' st2;
                  st4 = addInstruction (IRInstruction opcode (Some temp) [operand]) st3
              in pushValue (IRIdent temp) st4))"
| "visit_expr (CallExpression callee arguments loc) st =
     (let (args, st1) = visit_args arguments st;
          (temp, st2) = createTemp TY_INT32 ''t'' st1;
          st3 = addInstruction (IRInstruction OP_CALL (Some temp) args) st2
      in pushValue (IRIdent temp) st3)"
| "visit_args [] st = ([], st)"
| "visit_args (a # as) st =
     (let st1 = visit_expr a st;
          (v, st2) = popValue st1;
          (vs, st3) = visit_args as st2
      in (v # vs, st3))"

text \<open>The parameter loops of the function-declaration handler.\<close>

fun lowerParams ::
  "FunctionParameter list \<Rightarrow> IRBuilder \<Rightarrow> IRFunctionParameter list \<times> IRBuilder" where
  "lowerParams [] st = ([], st)"
| "lowerParams (p # ps) st =
     (let (paramType, st1) = typeFromString (param_type p) st;
          (rest, st2) = lowerParams ps st1
      in (IRFunctionParameter (param_name p) paramType # rest, st2))"

fun allocParams :: "IRFunctionParameter list \<Rightarrow> IRBuilder \<Rightarrow> IRBuilder" where
  "allocParams [] st = st"
| "allocParams (p # ps) st =
     (let var = IRIdentifier (irparam_name p) (irparam_type p);
          st1 = st\<lparr>symbolTable := (symbolTable st)(irparam_name p \<mapsto> var)\<rparr>;
          st2 = addInstruction (IRInstruction OP_ALLOCA (Some var) []) st1;
          paramVar = IRIdentifier (''param.'' @ irparam_name p) (irparam_type p);
          st3 = addInstruction
                  (IRInstruction OP_STORE None [IRIdent paramVar, IRIdent var]) st2
      in allocParams ps st3)"

text \<open>
  The function-declaration handler up to the point where it visits the body: the new
  function is added to the module and made current, the entry block is created and made
  current, the symbol table is cleared, the parameters get their slots. The result is
  the lowered return type and the builder state in which the body is visited.
\<close>

definition enterFunction ::
  "string \<Rightarrow> string \<Rightarrow> FunctionParameter list \<Rightarrow> IRBuilder \<Rightarrow> IRType \<times> IRBuilder" where
  "enterFunction returnTypeName name parameters st =
     (let (returnType, st1) = typeFromString returnTypeName st;
          (params, st2) = lowerParams parameters st1;
          st3 = st2\<lparr>currentFunction := Some (length (moduleFunctions st2)),
                    moduleFunctions :=
                      moduleFunctions st2 @ [IRFunction name returnType params []]\<rparr>;
          (entryBlock, st4) = createBlock ''entry'' st3;
          st5 = setCurrentBlock entryBlock st4;
          st6 = st5\<lparr>symbolTable := (\<lambda>_. None)\<rparr>
      in (returnType, allocParams params st6))"

text \<open>
  The end of the function-declaration handler, after the body: the default return, then
  both current pointers are reset. \<open>currentBlock_\<close> is dereferenced without a test, so a
  null current block is a null-pointer dereference (\<open>None\<close>).
\<close>

definition leaveFunction :: "IRType \<Rightarrow> IRBuilder \<Rightarrow> IRBuilder option" where
  "leaveFunction returnType st =
     (case currentBlock st of
        None \<Rightarrow> None
      | Some b \<Rightarrow>
          (let insts = getInstructions (blockStore st b);
               st1 = (if insts = [] \<or> getOpcode (last insts) \<noteq> OP_RET
                      then addInstruction
                             (IRInstruction OP_RET None
                                (if returnType = TY_VOID then [] else [IRIntConstant 0])) st
                      else st)
           in Some (st1\<lparr>currentFunction := None, currentBlock := None\<rparr>)))"

text \<open>
  The handlers of the statements with children are cut at the visits of the children:
  each straight-line piece between two visits is a definition of its own, in source
  order, so that the builder state in which a child is visited can be named.
\<close>

text \<open>Variable declaration, up to the initializer: type, symbol-table entry, slot.\<close>

definition declareVariable ::
  "string \<Rightarrow> string \<Rightarrow> IRBuilder \<Rightarrow> IRIdentifier \<times> IRBuilder" where
  "declareVariable typeName name st =
     (let (ty, st1) = typeFromString typeName st;
          var = IRIdentifier name ty;
          st2 = st1\<lparr>symbolTable := (symbolTable st1)(name \<mapsto> var)\<rparr>
      in (var, addInstruction (IRInstruction OP_ALLOCA (Some var) []) st2))"

text \<open>Variable declaration, after the initializer was visited: pop and store.\<close>

definition storeInitializer :: "IRIdentifier \<Rightarrow> IRBuilder \<Rightarrow> IRBuilder" where
  "storeInitializer var st =
     (let (initValue, st1) = popValue st
      in addInstruction (IRInstruction OP_STORE None [initValue, IRIdent var]) st1)"

text \<open>If statement: the three labels (then, else, end), made before the condition.\<close>

definition ifLabels :: "IRBuilder \<Rightarrow> (string \<times> string \<times> string) \<times> IRBuilder" where
  "ifLabels st =
     (let (thenLabel, st1) = createLabel ''then'' st;
          (elseLabel, st2) = createLabel ''else'' st1;
          (endLabel, st3) = createLabel ''endif'' st2
      in ((thenLabel, elseLabel, endLabel), st3))"

text \<open>
  If statement, after the condition was visited: pop it, emit the conditional jump to
  then and the jump to else, create the then block and make it current.
\<close>

definition ifBranch :: "string \<times> string \<times> string \<Rightarrow> IRBuilder \<Rightarrow> IRBuilder" where
  "ifBranch labels st =
     (case labels of (thenLabel, elseLabel, endLabel) \<Rightarrow>
        (let (condition, st1) = popValue st;
             st2 = addInstruction
                     (IRInstruction OP_JMP_IF None [condition, IRLabel thenLabel]) st1;
             st3 = addInstruction (IRInstruction OP_JMP None [IRLabel elseLabel]) st2;
             (thenBlock, st4) = createBlock thenLabel st3
         in setCurrentBlock thenBlock st4))"

text \<open>
  If statement, after the then branch was visited: emit the jump to end, create the else
  block and make it current.
\<close>

definition ifElse :: "string \<times> string \<times> string \<Rightarrow> IRBuilder \<Rightarrow> IRBuilder" where
  "ifElse labels st =
     (case labels of (thenLabel, elseLabel, endLabel) \<Rightarrow>
        (let st1 = addInstruction (IRInstruction OP_JMP None [IRLabel endLabel]) st;
             (elseBlock, st2) = createBlock elseLabel st1
         in setCurrentBlock elseBlock st2))"

text \<open>
  If statement, after the else branch (if any) was visited: emit the jump to end, create
  the end block and make it current.
\<close>

definition ifEnd :: "string \<times> string \<times> string \<Rightarrow> IRBuilder \<Rightarrow> IRBuilder" where
  "ifEnd labels st =
     (case labels of (thenLabel, elseLabel, endLabel) \<Rightarrow>
        (let st1 = addInstruction (IRInstruction OP_JMP None [IRLabel endLabel]) st;
             (endBlock, st2) = createBlock endLabel st1
         in setCurrentBlock endBlock st2))"

text \<open>
  While statement, up to the condition: the three labels (cond, body, end), the jump to
  cond, the cond block created and made current.
\<close>

definition whileEnter :: "IRBuilder \<Rightarrow> (string \<times> string \<times> string) \<times> IRBuilder" where
  "whileEnter st =
     (let (condLabel, st1) = createLabel ''while.cond'' st;
          (bodyLabel, st2) = createLabel ''while.body'' st1;
          (endLabel, st3) = createLabel ''while.end'' st2;
          st4 = addInstruction (IRInstruction OP_JMP None [IRLabel condLabel]) st3;
          (condBlock, st5) = createBlock condLabel st4
      in ((condLabel, bodyLabel, endLabel), setCurrentBlock condBlock st5))"

text \<open>While statement, after the condition was visited.\<close>

definition whileBranch :: "string \<times> string \<times> string \<Rightarrow> IRBuilder \<Rightarrow> IRBuilder" where
  "whileBranch labels st =
     (case labels of (condLabel, bodyLabel, endLabel) \<Rightarrow>
        (let (condition, st1) = popValue st;
             st2 = addInstruction
                     (IRInstruction OP_JMP_IF None [condition, IRLabel bodyLabel]) st1;
             st3 = addInstruction (IRInstruction OP_JMP None [IRLabel endLabel]) st2;
             (bodyBlock, st4) = createBlock bodyLabel st3
         in setCurrentBlock bodyBlock st4))"

text \<open>While statement, after the body was visited.\<close>

definition whileEnd :: "string \<times> string \<times> string \<Rightarrow> IRBuilder \<Rightarrow> IRBuilder" where
  "whileEnd labels st =
     (case labels of (condLabel, bodyLabel, endLabel) \<Rightarrow>
        (let st1 = addInstruction (IRInstruction OP_JMP None [IRLabel condLabel]) st;
             (endBlock, st2) = createBlock endLabel st1
         in setCurrentBlock endBlock st2))"

text \<open>
  The statement handlers; \<open>None\<close> is a null-pointer dereference. \<open>visit_stmts\<close> is the loop
  \<open>for (stmt : statements) stmt->accept(*this)\<close> of the block and program handlers, which
  calls through each element without a null test.
\<close>

fun visit_stmt :: "Statement \<Rightarrow> IRBuilder \<Rightarrow> IRBuilder option"
  and visit_stmts :: "Statement option list \<Rightarrow> IRBuilder \<Rightarrow> IRBuilder option" where
  "visit_stmt (ExpressionStatement e) st =
     (let st1 = visit_expr e st
      in Some (if valueStack st1 \<noteq> [] then st1\<lparr>valueStack := tl (valueStack st1)\<rparr>
               else st1))"
| "visit_stmt (VarDeclaration typeName name initializer loc) st =
     (let (var, st1) = declareVariable typeName name st
      in case initializer of
           None \<Rightarrow> Some st1
         | Some e \<Rightarrow> Some (storeInitializer var (visit_expr e st1)))"
| "visit_stmt (BlockStatement statements loc) st = visit_stmts statements st"
| "visit_stmt (IfStatement cond thenBranch elseBranch loc) st =
     (let (labels, st1) = ifLabels st;
          st2 = ifBranch labels (visit_expr cond st1)
      in case visit_stmt thenBranch st2 of
           None \<Rightarrow> None
         | Some st3 \<Rightarrow>
             (let st4 = ifElse labels st3
              in case (case elseBranch of
                         None \<Rightarrow> Some st4
                       | Some s \<Rightarrow> visit_stmt s st4) of
                   None \<Rightarrow> None
                 | Some st5 \<Rightarrow> Some (ifEnd labels st5)))"
| "visit_stmt (WhileStatement cond body loc) st =
     (let (labels, st1) = whileEnter st;
          st2 = whileBranch labels (visit_expr cond st1)
      in case visit_stmt body st2 of
           None \<Rightarrow> None
         | Some st3 \<Rightarrow> Some (whileEnd labels st3))"
| "visit_stmt (ReturnStatement val loc) st =
     (case val of
        Some e \<Rightarrow>
          (let (v, st1) = popValue (visit_expr e st)
           in Some (addInstruction (IRInstruction OP_RET None [v]) st1))
      | None \<Rightarrow> Some (addInstruction (IRInstruction OP_RET None []) st))"
| "visit_stmt (FunctionDeclaration returnTypeName name parameters body bodyLoc loc) st =
     (let (returnType, st1) = enterFunction returnTypeName name parameters st
      in case visit_stmts body st1 of
           None \<Rightarrow> None
         | Some st2 \<Rightarrow> leaveFunction returnType st2)"
| "visit_stmts [] st = Some st"
| "visit_stmts (None # rest) st = None"
| "visit_stmts (Some s # rest) st =
     (case visit_stmt s st of
        None \<Rightarrow> None
      | Some st1 \<Rightarrow> visit_stmts rest st1)"

text \<open>
  \<open>IRBuilder::build\<close>: the symbol table, the value stack and both counters are reset
  (the module and the current pointers are not), the program handler runs the statement
  loop, and the builder's module is returned: here the final builder state, from which
  \<open>module_of\<close> reads the module.
\<close>

definition resetBuilder :: "IRBuilder \<Rightarrow> IRBuilder" where
  "resetBuilder st =
     st\<lparr>symbolTable := (\<lambda>_. None), valueStack := [], labelCounter := 0, tempCounter := 0\<rparr>"

definition build :: "Program \<Rightarrow> IRBuilder \<Rightarrow> IRBuilder option" where
  "build program st = visit_stmts (getStatements program) (resetBuilder st)"

text \<open>The module as a value: each function with the contents of its blocks.\<close>

datatype IRModule =
  IRModule (getName: string) (getFunctions: "(IRFunction \<times> IRBasicBlock list) list")

definition module_of :: "IRBuilder \<Rightarrow> IRModule" where
  "module_of st =
     IRModule (moduleName st)
       (map (\<lambda>f. (f, map (blockStore st) (getBlocks f))) (moduleFunctions st))"

subsection \<open>The visits made by one \<open>build\<close> call\<close>

text \<open>
  A handler is entered on a node in a builder state. \<open>subvisit (n, st) (n', st')\<close> says
  that the handler entered on \<open>n\<close> in state \<open>st\<close> calls \<open>accept\<close> on its child \<open>n'\<close>, and
  that the builder is in state \<open>st'\<close> at that call. There is one rule for each call of
  \<open>accept\<close> in a handler; the binary handler has a rule for its left operand only, since
  it never calls \<open>accept\<close> on the right one.
\<close>

datatype Node = ExprNode Expression | StmtNode Statement

inductive subvisit :: "Node \<times> IRBuilder \<Rightarrow> Node \<times> IRBuilder \<Rightarrow> bool" where
  sub_binary:
    "subvisit (ExprNode (BinaryExpression left_e op right_e loc), st) (ExprNode left_e, st)"
| sub_unary:
    "subvisit (ExprNode (UnaryExpression op operand_e loc), st) (ExprNode operand_e, st)"
| sub_call:
    "i < length arguments \<Longrightarrow>
     subvisit (ExprNode (CallExpression callee arguments loc), st)
       (ExprNode (arguments ! i), snd (visit_args (take i arguments) st))"
| sub_expression_statement:
    "subvisit (StmtNode (ExpressionStatement e), st) (ExprNode e, st)"
| sub_initializer:
    "subvisit (StmtNode (VarDeclaration typeName name (Some e) loc), st)
       (ExprNode e, snd (declareVariable typeName name st))"
| sub_block:
    "i < length statements \<Longrightarrow> statements ! i = Some s \<Longrightarrow>
     visit_stmts (take i statements) st = Some st' \<Longrightarrow>
     subvisit (StmtNode (BlockStatement statements loc), st) (StmtNode s, st')"
| sub_if_condition:
    "subvisit (StmtNode (IfStatement cond thenBranch elseBranch loc), st)
       (ExprNode cond, snd (ifLabels st))"
| sub_if_then:
    "ifLabels st = (labels, st1) \<Longrightarrow>
     subvisit (StmtNode (IfStatement cond thenBranch elseBranch loc), st)
       (StmtNode thenBranch, ifBranch labels (visit_expr cond st1))"
| sub_if_else:
    "ifLabels st = (labels, st1) \<Longrightarrow>
     visit_stmt thenBranch (ifBranch labels (visit_expr cond st1)) = Some st3 \<Longrightarrow>
     subvisit (StmtNode (IfStatement cond thenBranch (Some s) loc), st)
       (StmtNode s, ifElse labels st3)"
| sub_while_condition:
    "subvisit (StmtNode (WhileStatement cond body loc), st)
       (ExprNode cond, snd (whileEnter st))"
| sub_while_body:
    "whileEnter st = (labels, st1) \<Longrightarrow>
     subvisit (StmtNode (WhileStatement cond body loc), st)
       (StmtNode body, whileBranch labels (visit_expr cond st1))"
| sub_return_value:
    "subvisit (StmtNode (ReturnStatement (Some e) loc), st) (ExprNode e, st)"
| sub_function_body:
    "i < length body \<Longrightarrow> body ! i = Some s \<Longrightarrow>
     visit_stmts (take i body) (snd (enterFunction returnTypeName name parameters st))
       = Some st' \<Longrightarrow>
     subvisit (StmtNode (FunctionDeclaration returnTypeName name parameters body bodyLoc loc),
               st)
       (StmtNode s, st')"

text \<open>
  \<open>build_visits program st0 (n, st)\<close>: during \<open>build program\<close> called on the builder
  \<open>st0\<close>, a handler is entered on node \<open>n\<close> in state \<open>st\<close>. The program handler enters the
  top-level statements in turn; every other entry is a sub-visit of an earlier one.
\<close>

inductive build_visits :: "Program \<Rightarrow> IRBuilder \<Rightarrow> Node \<times> IRBuilder \<Rightarrow> bool"
  for program :: Program and st0 :: IRBuilder where
  top_level:
    "i < length (getStatements program) \<Longrightarrow> getStatements program ! i = Some s \<Longrightarrow>
     visit_stmts (take i (getStatements program)) (resetBuilder st0) = Some st \<Longrightarrow>
     build_visits program st0 (StmtNode s, st)"
| nested:
    "build_visits program st0 p \<Longrightarrow> subvisit p q \<Longrightarrow> build_visits program st0 q"

section \<open>Auxiliary notions for the proofs\<close>

text \<open>
  \<open>same_frame st st'\<close>: from \<open>st\<close> to \<open>st'\<close> nothing changed but the value stack, the
  error stream, the temporary counter (which did not decrease) and the instructions of
  the current block.
\<close>

definition same_frame :: "IRBuilder \<Rightarrow> IRBuilder \<Rightarrow> bool" where
  "same_frame st st' \<longleftrightarrow>
     currentBlock st' = currentBlock st \<and> nextBlock st' = nextBlock st \<and>
     labelCounter st' = labelCounter st \<and> moduleFunctions st' = moduleFunctions st \<and>
     currentFunction st' = currentFunction st \<and> symbolTable st' = symbolTable st \<and>
     moduleName st' = moduleName st \<and> tempCounter st \<le> tempCounter st' \<and>
     (\<forall>a. currentBlock st \<noteq> Some a \<longrightarrow> blockStore st' a = blockStore st a) \<and>
     (\<forall>a. block_name (blockStore st' a) = block_name (blockStore st a))"

section \<open>Verified properties\<close>

lemma valueStack_addInstruction [simp]: "valueStack (addInstruction i st) = valueStack st"
  by (simp add: addInstruction_def split: option.split)

lemma valueStack_log_cerr [simp]: "valueStack (log_cerr m st) = valueStack st"
  by (simp add: log_cerr_def)

lemma valueStack_createTemp [simp]: "valueStack (snd (createTemp ty p st)) = valueStack st"
  by (simp add: createTemp_def)

lemma valueStack_createLabel [simp]: "valueStack (snd (createLabel p st)) = valueStack st"
  by (simp add: createLabel_def)

lemma valueStack_createBlock [simp]: "valueStack (snd (createBlock n st)) = valueStack st"
  by (simp add: createBlock_def Let_def split: option.split)

lemma valueStack_setCurrentBlock [simp]: "valueStack (setCurrentBlock b st) = valueStack st"
  by (simp add: setCurrentBlock_def)

lemma valueStack_typeFromString [simp]: "valueStack (snd (typeFromString t st)) = valueStack st"
  by (simp add: typeFromString_def)

lemma valueStack_pushValue [simp]: "valueStack (pushValue v st) = v # valueStack st"
  by (simp add: pushValue_def)

lemma valueStack_popValue [simp]: "valueStack (snd (popValue st)) = tl (valueStack st)"
  by (simp add: popValue_def split: list.split)

lemma valueStack_lowerAssign [simp]: "valueStack (lowerAssign t r st) = r # valueStack st"
  by (simp add: lowerAssign_def Let_def split: Expression.split option.split)

lemma visit_expr_stack_empty:
  "valueStack st = [] \<Longrightarrow> \<exists>v. valueStack (visit_expr e st) = [v]"
  "valueStack st = [] \<Longrightarrow> valueStack (snd (visit_args es st)) = []"
proof (induction e st and es st rule: visit_expr_visit_args.induct)
  case (5 left_e op right_e loc st)
  then obtain v where "valueStack (visit_expr left_e st) = [v]" by blast
  then show ?case
    by (simp add: split_beta Let_def split: option.split)
next
  case (6 op operand_e loc st)
  then obtain v where "valueStack (visit_expr operand_e st) = [v]" by blast
  then show ?case
    by (simp add: split_beta Let_def split: option.split)
next
  case (7 callee arguments loc st)
  then show ?case by (simp add: split_beta Let_def)
next
  case (9 a as st)
  from 9(1)[OF 9(3)] obtain v where v: "valueStack (visit_expr a st) = [v]" by blast
  have e: "valueStack (snd (popValue (visit_expr a st))) = []" using v by simp
  have "valueStack (snd (visit_args as (snd (popValue (visit_expr a st))))) = []"
    using 9(2)[of "visit_expr a st" "popValue (visit_expr a st)"
        "fst (popValue (visit_expr a st))" "snd (popValue (visit_expr a st))"] e
    by simp
  then show ?case by (simp add: split_beta Let_def)
qed (simp_all add: split_beta Let_def split: option.split)


lemma valueStack_lowerParams [simp]: "valueStack (snd (lowerParams ps st)) = valueStack st"
  by (induction ps arbitrary: st) (simp_all add: split_beta Let_def)

lemma valueStack_allocParams [simp]: "valueStack (allocParams ps st) = valueStack st"
  by (induction ps arbitrary: st) (simp_all add: Let_def)

lemma valueStack_enterFunction [simp]:
  "valueStack (snd (enterFunction rt name ps st)) = valueStack st"
  by (simp add: enterFunction_def split_beta Let_def)

lemma valueStack_leaveFunction:
  "leaveFunction rty st = Some st' \<Longrightarrow> valueStack st' = valueStack st"
  by (auto simp: leaveFunction_def Let_def split: option.splits if_splits)

lemma valueStack_declareVariable [simp]:
  "valueStack (snd (declareVariable ty name st)) = valueStack st"
  by (simp add: declareVariable_def split_beta Let_def)

lemma valueStack_storeInitializer [simp]:
  "valueStack (storeInitializer var st) = tl (valueStack st)"
  by (simp add: storeInitializer_def split_beta)

lemma valueStack_ifLabels [simp]: "valueStack (snd (ifLabels st)) = valueStack st"
  by (simp add: ifLabels_def split_beta)

lemma valueStack_ifBranch [simp]: "valueStack (ifBranch labels st) = tl (valueStack st)"
  by (simp add: ifBranch_def split_beta Let_def)

lemma valueStack_ifElse [simp]: "valueStack (ifElse labels st) = valueStack st"
  by (simp add: ifElse_def split_beta Let_def)

lemma valueStack_ifEnd [simp]: "valueStack (ifEnd labels st) = valueStack st"
  by (simp add: ifEnd_def split_beta Let_def)

lemma valueStack_whileEnter [simp]: "valueStack (snd (whileEnter st)) = valueStack st"
  by (simp add: whileEnter_def split_beta Let_def)

lemma valueStack_whileBranch [simp]: "valueStack (whileBranch labels st) = tl (valueStack st)"
  by (simp add: whileBranch_def split_beta Let_def)

lemma valueStack_whileEnd [simp]: "valueStack (whileEnd labels st) = valueStack st"
  by (simp add: whileEnd_def split_beta Let_def)

lemma visit_stmt_stack_empty:
  "valueStack st = [] \<Longrightarrow> visit_stmt s st = Some st' \<Longrightarrow> valueStack st' = []"
  "valueStack st = [] \<Longrightarrow> visit_stmts ss st = Some st' \<Longrightarrow> valueStack st' = []"
proof (induction s st and ss st arbitrary: st' and st' rule: visit_stmt_visit_stmts.induct)
  case (1 e st)
  from visit_expr_stack_empty(1)[OF 1(1), of e] obtain v
    where "valueStack (visit_expr e st) = [v]" by blast
  with 1 show ?case by (auto simp: Let_def)
next
  case (2 typeName name initializer loc st)
  show ?case
  proof (cases initializer)
    case None
    with 2 show ?thesis by (auto simp: split_beta)
  next
    case (Some e)
    have "valueStack (snd (declareVariable typeName name st)) = []" using 2 by simp
    from visit_expr_stack_empty(1)[OF this, of e] obtain v
      where "valueStack (visit_expr e (snd (declareVariable typeName name st))) = [v]"
      by blast
    with 2 Some show ?thesis by (auto simp: split_beta)
  qed
next
  case (3 statements loc st)
  then show ?case by simp
next
  case (4 cond thenBranch elseBranch loc st)
  have "valueStack (snd (ifLabels st)) = []" using "4.prems"(1) by simp
  from visit_expr_stack_empty(1)[OF this, of cond]
  have c: "valueStack (ifBranch (fst (ifLabels st)) (visit_expr cond (snd (ifLabels st)))) = []"
    by auto
  from "4.prems"(2) obtain st3 st5 where
    t: "visit_stmt thenBranch (ifBranch (fst (ifLabels st)) (visit_expr cond (snd (ifLabels st)))) = Some st3"
    and e: "(case elseBranch of None \<Rightarrow> Some (ifElse (fst (ifLabels st)) st3)
             | Some s \<Rightarrow> visit_stmt s (ifElse (fst (ifLabels st)) st3)) = Some st5"
    and r: "st' = ifEnd (fst (ifLabels st)) st5"
    by (auto simp: split_beta Let_def split: option.splits)
  have s3: "valueStack st3 = []"
    using "4.IH"(1)[OF refl prod.collapse refl c t] .
  have "valueStack st5 = []"
  proof (cases elseBranch)
    case None
    with e s3 show ?thesis by auto
  next
    case (Some s)
    with e have v: "visit_stmt s (ifElse (fst (ifLabels st)) st3) = Some st5" by simp
    have "valueStack (ifElse (fst (ifLabels st)) st3) = []" using s3 by simp
    from "4.IH"(2)[OF refl prod.collapse refl t refl Some this v] show ?thesis .
  qed
  with r show ?case by simp
next
  case (5 cond body loc st)
  have "valueStack (snd (whileEnter st)) = []" using "5.prems"(1) by simp
  from visit_expr_stack_empty(1)[OF this, of cond]
  have c: "valueStack (whileBranch (fst (whileEnter st)) (visit_expr cond (snd (whileEnter st)))) = []"
    by auto
  from "5.prems"(2) obtain st3 where
    t: "visit_stmt body (whileBranch (fst (whileEnter st)) (visit_expr cond (snd (whileEnter st)))) = Some st3"
    and r: "st' = whileEnd (fst (whileEnter st)) st3"
    by (auto simp: split_beta Let_def split: option.splits)
  have "valueStack st3 = []"
    using "5.IH"[OF refl prod.collapse refl c t] .
  with r show ?case by simp
next
  case (6 val loc st)
  show ?case
  proof (cases val)
    case None
    with 6 show ?thesis by auto
  next
    case (Some e)
    from visit_expr_stack_empty(1)[OF 6(1), of e] obtain v
      where "valueStack (visit_expr e st) = [v]" by blast
    with 6 Some show ?thesis by (auto simp: split_beta)
  qed
next
  case (7 returnTypeName name parameters body bodyLoc loc st)
  from "7.prems"(2) obtain st2 where
    b: "visit_stmts body (snd (enterFunction returnTypeName name parameters st)) = Some st2"
    and r: "leaveFunction (fst (enterFunction returnTypeName name parameters st)) st2 = Some st'"
    by (auto simp: split_beta split: option.splits)
  have "valueStack (snd (enterFunction returnTypeName name parameters st)) = []"
    using "7.prems"(1) by simp
  from "7.IH"[OF refl prod.collapse this b] have "valueStack st2 = []" .
  with valueStack_leaveFunction[OF r] show ?case by simp
next
  case (8 st)
  then show ?case by simp
next
  case (9 rest st)
  then show ?case by simp
next
  case (10 s rest st)
  from "10.prems"(2) obtain st1 where a: "visit_stmt s st = Some st1"
    and b: "visit_stmts rest st1 = Some st'"
    by (auto split: option.splits)
  from "10.IH"(1)[OF "10.prems"(1) a] have "valueStack st1 = []" .
  from "10.IH"(2)[OF a this b] show ?case .
qed


lemma visit_args_take_stack_empty:
  "valueStack st = [] \<Longrightarrow> valueStack (snd (visit_args (take i es) st)) = []"
  by (rule visit_expr_stack_empty(2))

lemma subvisit_stack_empty:
  assumes "subvisit p q" and "valueStack (snd p) = []"
  shows "valueStack (snd q) = []"
  using assms
proof (cases rule: subvisit.cases)
  case (sub_call i arguments callee loc st)
  with assms(2) show ?thesis by (simp add: visit_expr_stack_empty(2))
next
  case (sub_block i statements s st st' loc)
  with assms(2) visit_stmt_stack_empty(2)[of st "take i statements" st'] show ?thesis
    by simp
next
  case (sub_if_then st labels st1 cond thenBranch elseBranch loc)
  have "valueStack st1 = []"
    using assms(2) sub_if_then valueStack_ifLabels[of st] by simp
  from visit_expr_stack_empty(1)[OF this, of cond] sub_if_then show ?thesis by auto
next
  case (sub_if_else st labels st1 thenBranch cond st3 s loc)
  have "valueStack st1 = []"
    using assms(2) sub_if_else valueStack_ifLabels[of st] by simp
  from visit_expr_stack_empty(1)[OF this, of cond]
  have "valueStack (ifBranch labels (visit_expr cond st1)) = []" by auto
  from visit_stmt_stack_empty(1)[OF this sub_if_else(4)] sub_if_else show ?thesis by simp
next
  case (sub_while_body st labels st1 cond body loc)
  have "valueStack st1 = []"
    using assms(2) sub_while_body valueStack_whileEnter[of st] by simp
  from visit_expr_stack_empty(1)[OF this, of cond] sub_while_body show ?thesis by auto
next
  case (sub_function_body i body s returnTypeName name parameters st st' bodyLoc loc)
  have "valueStack (snd (enterFunction returnTypeName name parameters st)) = []"
    using assms(2) sub_function_body by simp
  from visit_stmt_stack_empty(2)[OF this sub_function_body(5)] sub_function_body
  show ?thesis by simp
qed (use assms(2) in simp_all)

lemma build_visits_stack_empty:
  "build_visits program st0 p \<Longrightarrow> valueStack (snd p) = []"
proof (induction rule: build_visits.induct)
  case (top_level i s st)
  have "valueStack (resetBuilder st0) = []" by (simp add: resetBuilder_def)
  from visit_stmt_stack_empty(2)[OF this top_level(3)] show ?case by simp
next
  case (nested p q)
  then show ?case by (blast intro: subvisit_stack_empty)
qed

text \<open>
  C1. During one \<open>build\<close> call, whenever a handler is entered on an expression node the
  value stack after the handler is the stack at entry with exactly one value pushed on
  top, and whenever a handler is entered on a statement node and returns, the value stack
  is the one it found.
\<close>

theorem build_stack_discipline:
  assumes "build_visits program st0 (n, st)"
  shows "case n of
           ExprNode e \<Rightarrow> (\<exists>v. valueStack (visit_expr e st) = v # valueStack st)
         | StmtNode s \<Rightarrow> (\<forall>st'. visit_stmt s st = Some st' \<longrightarrow> valueStack st' = valueStack st)"
proof -
  from build_visits_stack_empty[OF assms] have e: "valueStack st = []" by simp
  show ?thesis
  proof (cases n)
    case (ExprNode x)
    with visit_expr_stack_empty(1)[OF e, of x] e show ?thesis by simp
  next
    case (StmtNode s)
    with visit_stmt_stack_empty(1)[OF e, of s] e show ?thesis by simp
  qed
qed

theorem build_stack_discipline_witness:
  "build_visits
     (Program [Some (ExpressionStatement
        (BinaryExpression (IntegerLiteral 1 (SourceLocation 1 1)) T_PLUS
           (IntegerLiteral 2 (SourceLocation 1 5)) (SourceLocation 1 3)))])
     (new_IRBuilder ''m'')
     (ExprNode (BinaryExpression (IntegerLiteral 1 (SourceLocation 1 1)) T_PLUS
                  (IntegerLiteral 2 (SourceLocation 1 5)) (SourceLocation 1 3)),
      resetBuilder (new_IRBuilder ''m''))
   \<and> (\<exists>v. valueStack
              (visit_expr
                 (BinaryExpression (IntegerLiteral 1 (SourceLocation 1 1)) T_PLUS
                    (IntegerLiteral 2 (SourceLocation 1 5)) (SourceLocation 1 3))
                 (resetBuilder (new_IRBuilder ''m'')))
            = v # valueStack (resetBuilder (new_IRBuilder ''m'')))"
proof -
  let ?e = "BinaryExpression (IntegerLiteral 1 (SourceLocation 1 1)) T_PLUS
              (IntegerLiteral 2 (SourceLocation 1 5)) (SourceLocation 1 3)"
  let ?st = "resetBuilder (new_IRBuilder ''m'')"
  have "build_visits (Program [Some (ExpressionStatement ?e)]) (new_IRBuilder ''m'')
          (StmtNode (ExpressionStatement ?e), ?st)"
    by (rule top_level[where i = 0]) simp_all
  then have v: "build_visits (Program [Some (ExpressionStatement ?e)]) (new_IRBuilder ''m'')
          (ExprNode ?e, ?st)"
    by (rule nested) (rule sub_expression_statement)
  from build_stack_discipline[OF v] v show ?thesis by simp
qed

subsection \<open>Decimal numerals and generated names\<close>

lemma to_string_digit: "n < 10 \<Longrightarrow> to_string n = [''0123456789'' ! n]"
  by (subst to_string.simps) simp

lemma to_string_step:
  "\<not> n < 10 \<Longrightarrow> to_string n = to_string (n div 10) @ [''0123456789'' ! (n mod 10)]"
  by (subst to_string.simps) simp

lemma to_string_nonempty: "to_string n \<noteq> []"
  by (cases "n < 10") (simp_all add: to_string_digit to_string_step)

lemma digit_inj:
  assumes "a < 10" and "b < 10" and "''0123456789'' ! a = ''0123456789'' ! b"
  shows "a = b"
proof -
  have d: "distinct ''0123456789''" by simp
  have l: "length ''0123456789'' = 10" by simp
  from assms nth_eq_iff_index_eq[OF d, of a b] l show ?thesis by simp
qed

lemma to_string_inj: "to_string n = to_string m \<Longrightarrow> n = m"
proof (induction n arbitrary: m rule: to_string.induct)
  case (1 n)
  show ?case
  proof (cases "n < 10")
    case True
    note n = this
    show ?thesis
    proof (cases "m < 10")
      case True
      with n 1(2) show ?thesis by (simp add: to_string_digit digit_inj)
    next
      case False
      with n 1(2) to_string_nonempty[of "m div 10"] show ?thesis
        by (simp add: to_string_digit to_string_step)
    qed
  next
    case False
    note n = this
    show ?thesis
    proof (cases "m < 10")
      case True
      with n 1(2) to_string_nonempty[of "n div 10"] show ?thesis
        by (simp add: to_string_digit to_string_step)
    next
      case False
      with n 1(2) have p: "to_string (n div 10) = to_string (m div 10)"
        and d: "''0123456789'' ! (n mod 10) = ''0123456789'' ! (m mod 10)"
        by (simp_all add: to_string_step)
      from 1(1)[OF n p] have q: "n div 10 = m div 10" .
      from digit_inj[OF _ _ d] have r: "n mod 10 = m mod 10" by simp
      from q r show ?thesis by (metis div_mult_mod_eq)
    qed
  qed
qed

lemma digit_not_dot: "n < 10 \<Longrightarrow> ''0123456789'' ! n \<noteq> CHR ''.''"
proof -
  assume "n < 10"
  then have "''0123456789'' ! n \<in> set ''0123456789''" by (intro nth_mem) simp
  then show ?thesis by auto
qed

lemma to_string_no_dot: "CHR ''.'' \<notin> set (to_string n)"
proof (induction n rule: to_string.induct)
  case (1 n)
  show ?case
  proof (cases "n < 10")
    case True
    then show ?thesis using digit_not_dot[of n] by (simp add: to_string_digit)
  next
    case False
    with 1 digit_not_dot[of "n mod 10"] show ?thesis by (simp add: to_string_step)
  qed
qed

lemma dotted_suffix_eq:
  assumes "p @ ''.'' @ d = p' @ ''.'' @ d'"
    and "CHR ''.'' \<notin> set d" and "CHR ''.'' \<notin> set d'"
  shows "d = d'"
proof -
  have "rev d @ CHR ''.'' # rev p = rev d' @ CHR ''.'' # rev p'"
    using arg_cong[OF assms(1), of rev] by simp
  then have "takeWhile (\<lambda>c. c \<noteq> CHR ''.'') (rev d @ CHR ''.'' # rev p)
           = takeWhile (\<lambda>c. c \<noteq> CHR ''.'') (rev d' @ CHR ''.'' # rev p')"
    by simp
  moreover have "takeWhile (\<lambda>c. c \<noteq> CHR ''.'') (rev d @ CHR ''.'' # rev p) = rev d"
    using assms(2) by (subst takeWhile_append2) auto
  moreover have "takeWhile (\<lambda>c. c \<noteq> CHR ''.'') (rev d' @ CHR ''.'' # rev p') = rev d'"
    using assms(3) by (subst takeWhile_append2) auto
  ultimately show ?thesis by simp
qed

lemma label_name_inj:
  "p @ ''.'' @ to_string n = p' @ ''.'' @ to_string m \<Longrightarrow> n = m"
  using dotted_suffix_eq[OF _ to_string_no_dot to_string_no_dot] to_string_inj by blast

lemma temp_name_inj: "p @ to_string n = p @ to_string m \<Longrightarrow> n = m"
  using to_string_inj by simp

subsection \<open>What expression lowering leaves alone\<close>

lemma same_frame_refl [simp]: "same_frame st st"
  by (simp add: same_frame_def)

lemma same_frame_trans: "same_frame a b \<Longrightarrow> same_frame b c \<Longrightarrow> same_frame a c"
  by (auto simp: same_frame_def)

lemma same_frame_pushValue [simp]: "same_frame st (pushValue v st)"
  by (simp add: same_frame_def pushValue_def)

lemma same_frame_popValue [simp]: "same_frame st (snd (popValue st))"
  by (simp add: same_frame_def popValue_def log_cerr_def split: list.split)

lemma same_frame_log_cerr [simp]: "same_frame st (log_cerr m st)"
  by (simp add: same_frame_def log_cerr_def)

lemma same_frame_createTemp [simp]: "same_frame st (snd (createTemp ty p st))"
  by (simp add: same_frame_def createTemp_def)

lemma same_frame_addInstruction [simp]: "same_frame st (addInstruction i st)"
  by (simp add: same_frame_def addInstruction_def split: option.split)

lemmas same_frame_step = same_frame_trans[rotated]

lemma same_frame_lowerAssign [simp]: "same_frame st (lowerAssign t r st)"
  by (auto simp: lowerAssign_def Let_def split: Expression.split option.split
      intro!: same_frame_step[OF same_frame_pushValue] same_frame_step[OF same_frame_log_cerr])

lemma visit_expr_same_frame:
  "same_frame st (visit_expr e st)"
  "same_frame st (snd (visit_args es st))"
proof (induction e st and es st rule: visit_expr_visit_args.induct)
  case (4 name loc st)
  show ?case
    by (auto simp: split_beta Let_def split: option.split
        intro!: same_frame_step[OF same_frame_pushValue]
          same_frame_step[OF same_frame_log_cerr]
          same_frame_step[OF same_frame_addInstruction]
          same_frame_step[OF same_frame_createTemp])
next
  case (5 left_e op right_e loc st)
  have "same_frame st (snd (popValue (snd (popValue (visit_expr left_e st)))))"
    by (rule same_frame_trans[OF 5 same_frame_trans[OF same_frame_popValue same_frame_popValue]])
  then show ?case
    by (auto simp: split_beta Let_def split: option.split
        intro!: same_frame_step[OF same_frame_pushValue]
          same_frame_step[OF same_frame_log_cerr]
          same_frame_step[OF same_frame_addInstruction]
          same_frame_step[OF same_frame_createTemp]
          same_frame_step[OF same_frame_lowerAssign])
next
  case (6 op operand_e loc st)
  have "same_frame st (snd (popValue (visit_expr operand_e st)))"
    by (rule same_frame_trans[OF 6 same_frame_popValue])
  then show ?case
    by (auto simp: split_beta Let_def split: option.split
        intro!: same_frame_step[OF same_frame_pushValue]
          same_frame_step[OF same_frame_log_cerr]
          same_frame_step[OF same_frame_addInstruction]
          same_frame_step[OF same_frame_createTemp])
next
  case (7 callee arguments loc st)
  then show ?case
    by (auto simp: split_beta Let_def
        intro!: same_frame_step[OF same_frame_pushValue]
          same_frame_step[OF same_frame_addInstruction]
          same_frame_step[OF same_frame_createTemp])
next
  case (9 a as st)
  have 1: "same_frame st (snd (popValue (visit_expr a st)))"
    by (rule same_frame_trans[OF 9(1) same_frame_popValue])
  have 2: "same_frame (snd (popValue (visit_expr a st)))
             (snd (visit_args as (snd (popValue (visit_expr a st)))))"
    by (rule 9(2)[OF refl refl prod.collapse])
  from same_frame_trans[OF 1 2] show ?case by (simp add: split_beta Let_def)
qed (auto intro!: same_frame_step[OF same_frame_pushValue]
          same_frame_step[OF same_frame_log_cerr])

lemma length_visit_args: "length (fst (visit_args es st)) = length es"
  by (induction es arbitrary: st) (simp_all add: split_beta Let_def)

text \<open>
  C9. The \<open>CALL\<close> instruction emitted for a call expression has exactly the lowered
  argument values as operands (one per argument, in order) and a result named by the
  temporary counter, of type \<open>INT32\<close>, which no earlier temporary of the build carries;
  that temporary is the value the expression leaves on the stack. The callee's name has no
  influence on the builder state that results, so neither the module nor anything printed
  from it tells which function is called.
\<close>

theorem call_lowering_drops_callee:
  assumes "currentBlock st = Some b"
  shows "getInstructions (blockStore (visit_expr (CallExpression callee arguments loc) st) b)
           = getInstructions (blockStore (snd (visit_args arguments st)) b)
             @ [IRInstruction OP_CALL
                  (Some (IRIdentifier
                     (''t'' @ to_string (tempCounter (snd (visit_args arguments st))))
                     TY_INT32))
                  (fst (visit_args arguments st))]
       \<and> length (fst (visit_args arguments st)) = length arguments
       \<and> valueStack (visit_expr (CallExpression callee arguments loc) st)
           = IRIdent (IRIdentifier
                (''t'' @ to_string (tempCounter (snd (visit_args arguments st)))) TY_INT32)
             # valueStack (snd (visit_args arguments st))
       \<and> (\<forall>n < tempCounter (snd (visit_args arguments st)).
             ''t'' @ to_string n
               \<noteq> ''t'' @ to_string (tempCounter (snd (visit_args arguments st))))
       \<and> visit_expr (CallExpression callee' arguments loc') st
           = visit_expr (CallExpression callee arguments loc) st"
proof -
  have "currentBlock (snd (visit_args arguments st)) = Some b"
    using visit_expr_same_frame(2)[of st arguments] assms by (simp add: same_frame_def)
  then show ?thesis
    using to_string_inj
    by (auto simp: split_beta Let_def createTemp_def addInstruction_def pushValue_def
        length_visit_args)
qed

theorem call_lowering_drops_callee_witness:
  "currentBlock (setCurrentBlock 0 (new_IRBuilder ''m'')) = Some 0
   \<and> getInstructions
        (blockStore
           (visit_expr
              (CallExpression ''f'' [IntegerLiteral 1 (SourceLocation 1 3)] (SourceLocation 1 4))
              (setCurrentBlock 0 (new_IRBuilder ''m''))) 0)
      = [IRInstruction OP_CALL (Some (IRIdentifier ''t0'' TY_INT32)) [IRIntConstant 1]]
   \<and> visit_expr
        (CallExpression ''g'' [IntegerLiteral 1 (SourceLocation 1 3)] (SourceLocation 1 4))
        (setCurrentBlock 0 (new_IRBuilder ''m''))
      = visit_expr
          (CallExpression ''f'' [IntegerLiteral 1 (SourceLocation 1 3)] (SourceLocation 1 4))
          (setCurrentBlock 0 (new_IRBuilder ''m''))"
proof -
  have c: "currentBlock (setCurrentBlock 0 (new_IRBuilder ''m'')) = Some 0"
    by (simp add: setCurrentBlock_def)
  from call_lowering_drops_callee[OF c, of "''f''" "[IntegerLiteral 1 (SourceLocation 1 3)]"
      "SourceLocation 1 4" "''g''" "SourceLocation 1 4"] c
  show ?thesis
    by (simp add: setCurrentBlock_def new_IRBuilder_def pushValue_def popValue_def
        to_string_digit)
qed

subsection \<open>The default return\<close>

lemma enterFunction_returnType:
  "fst (enterFunction returnTypeName name parameters st) = TY_VOID
     \<longleftrightarrow> returnTypeName = ''void''"
  by (simp add: enterFunction_def typeFromString_def split_beta Let_def)

text \<open>
  C5. When the body of a function declaration has been lowered and the builder has a
  current block, the handler returns; that block gets one more instruction exactly when
  it is empty or does not end in \<open>RET\<close>, namely a \<open>RET\<close> with no operand for return type
  \<open>void\<close> and with the integer constant 0 otherwise; no other block changes.
\<close>

theorem default_return:
  assumes "visit_stmts body (snd (enterFunction returnTypeName name parameters st)) = Some st2"
    and "currentBlock st2 = Some b"
  shows "\<exists>st'. visit_stmt
                (FunctionDeclaration returnTypeName name parameters body bodyLoc loc) st
              = Some st'
           \<and> getInstructions (blockStore st' b)
               = (if getInstructions (blockStore st2 b) = []
                     \<or> getOpcode (last (getInstructions (blockStore st2 b))) \<noteq> OP_RET
                  then getInstructions (blockStore st2 b)
                       @ [IRInstruction OP_RET None
                            (if returnTypeName = ''void'' then [] else [IRIntConstant 0])]
                  else getInstructions (blockStore st2 b))
           \<and> (\<forall>a. a \<noteq> b \<longrightarrow> blockStore st' a = blockStore st2 a)"
  using assms enterFunction_returnType[of returnTypeName name parameters st]
  by (auto simp: split_beta leaveFunction_def addInstruction_def Let_def)

theorem default_return_witness:
  "visit_stmts [] (snd (enterFunction ''int'' ''f'' [] (new_IRBuilder ''m'')))
     = Some (snd (enterFunction ''int'' ''f'' [] (new_IRBuilder ''m'')))
   \<and> currentBlock (snd (enterFunction ''int'' ''f'' [] (new_IRBuilder ''m''))) = Some 0
   \<and> (\<exists>st'. visit_stmt
                (FunctionDeclaration ''int'' ''f'' [] [] (SourceLocation 1 9) (SourceLocation 1 5))
                (new_IRBuilder ''m'')
              = Some st'
            \<and> getInstructions (blockStore st' 0)
                = [IRInstruction OP_RET None [IRIntConstant 0]])"
proof -
  have b: "visit_stmts [] (snd (enterFunction ''int'' ''f'' [] (new_IRBuilder ''m'')))
             = Some (snd (enterFunction ''int'' ''f'' [] (new_IRBuilder ''m'')))"
    by simp
  have c: "currentBlock (snd (enterFunction ''int'' ''f'' [] (new_IRBuilder ''m''))) = Some 0"
    by (simp add: enterFunction_def typeFromString_def createBlock_def setCurrentBlock_def
        new_IRBuilder_def)
  have i: "getInstructions
             (blockStore (snd (enterFunction ''int'' ''f'' [] (new_IRBuilder ''m''))) 0) = []"
    by (simp add: enterFunction_def typeFromString_def createBlock_def setCurrentBlock_def
        new_IRBuilder_def)
  from default_return[OF b c, of "SourceLocation 1 9" "SourceLocation 1 5"] i
  have "\<exists>st'. visit_stmt
                (FunctionDeclaration ''int'' ''f'' [] [] (SourceLocation 1 9) (SourceLocation 1 5))
                (new_IRBuilder ''m'')
              = Some st'
            \<and> getInstructions (blockStore st' 0)
                = [IRInstruction OP_RET None [IRIntConstant 0]]"
    by auto
  with b c show ?thesis by blast
qed

end
